theory Spec2Isabelle
  imports Main
begin

section \<open>The React node view of @remirror/react-utils\<close>

text \<open>
  A shallow embedding of the class \<open>ReactNodeView\<close> of
  \<open>@remirror/react-utils/src/react-node-view.tsx\<close>. The class keeps references to DOM
  nodes and mutates them, so the document is an explicit store: a list of DOM nodes, a
  reference being an index into it (object identity is equality of indices). The portal
  container is a collaborator outside the file; the model records the calls made to it.
  A JavaScript exception is a value: a method that can throw returns a sum together with
  the state reached when it threw, since the assignments made before a \<open>throw\<close> stay.

  A string is a list of characters with code points below 256 (the Latin-1 range of
  JavaScript's strings). The document is an HTML document, as a React application has it:
  it folds the names of elements and attributes to ASCII lower case.
\<close>

subsection \<open>JavaScript values and their string conversion\<close>

text \<open>
  Attribute values of a ProseMirror node are JSON values or \<open>undefined\<close>. Only their
  conversion to a string matters here (\<open>String(v)\<close>, which is also the conversion that
  \<open>setAttribute\<close> applies to its second argument), so a number is given by the decimal
  form that \<open>Number.prototype.toString\<close> yields for it (\<open>2\<close>, \<open>0.5\<close>, \<open>1e+21\<close>,
  \<open>NaN\<close>), and an array or object by the string it converts to.
\<close>

datatype js_value =
    JUndefined
  | JNull
  | JBool bool
  | JNum string
  | JStr string
  | JOther string

fun js_String :: "js_value \<Rightarrow> string" where
  "js_String JUndefined = ''undefined''"
| "js_String JNull = ''null''"
| "js_String (JBool b) = (if b then ''true'' else ''false'')"
| "js_String (JNum decimal) = decimal"
| "js_String (JStr s) = s"
| "js_String (JOther converted) = converted"

text \<open>\<open>obj[key]\<close> on a plain object: the value stored under the key, or \<open>undefined\<close>.\<close>

definition js_get :: "(string \<times> js_value) list \<Rightarrow> string \<Rightarrow> js_value" where
  "js_get obj k = (case map_of obj k of Some v \<Rightarrow> v | None \<Rightarrow> JUndefined)"

subsection \<open>Names in an HTML document\<close>

text \<open>
  \<open>document.createElement\<close> and \<open>element.setAttribute\<close> throw an
  \<open>InvalidCharacterError\<close> for a name that does not match the \<open>Name\<close> production of
  XML, and fold the name to ASCII lower case. On code points below 256 the production is:
  a first character among \<open>:\<close>, \<open>_\<close>, the ASCII letters and the letters \<open>U+00C0\<close> to
  \<open>U+00FF\<close> without \<open>U+00D7\<close> and \<open>U+00F7\<close>; then any of these, \<open>-\<close>, \<open>.\<close>, the
  digits and \<open>U+00B7\<close>.
\<close>

definition is_NameStartChar :: "char \<Rightarrow> bool" where
  "is_NameStartChar c =
     (let n = (of_char c :: nat)
      in n = 58 \<or> (65 \<le> n \<and> n \<le> 90) \<or> n = 95 \<or> (97 \<le> n \<and> n \<le> 122) \<or>
         (192 \<le> n \<and> n \<le> 214) \<or> (216 \<le> n \<and> n \<le> 246) \<or> 248 \<le> n)"

definition is_NameChar :: "char \<Rightarrow> bool" where
  "is_NameChar c =
     (let n = (of_char c :: nat)
      in is_NameStartChar c \<or> n = 45 \<or> n = 46 \<or> (48 \<le> n \<and> n \<le> 57) \<or> n = 183)"

definition is_Name :: "string \<Rightarrow> bool" where
  "is_Name s =
     (case s of [] \<Rightarrow> False | c # cs \<Rightarrow> is_NameStartChar c \<and> list_all is_NameChar cs)"

definition lower_char :: "char \<Rightarrow> char" where
  "lower_char c =
     (let n = (of_char c :: nat) in if 65 \<le> n \<and> n \<le> 90 then char_of (n + 32) else c)"

definition upper_char :: "char \<Rightarrow> char" where
  "upper_char c =
     (let n = (of_char c :: nat) in if 97 \<le> n \<and> n \<le> 122 then char_of (n - 32) else c)"

definition ascii_lowercase :: "string \<Rightarrow> string" where
  "ascii_lowercase s = map lower_char s"

definition ascii_uppercase :: "string \<Rightarrow> string" where
  "ascii_uppercase s = map upper_char s"

subsection \<open>The document: a store of DOM nodes\<close>

text \<open>
  The nodes of the store are HTML elements (\<open>HTMLElement\<close> is the declared type of
  \<open>domRef\<close> and of the node given to \<open>handleRef\<close>) and character data; documents,
  doctypes, document fragments and elements of other namespaces are not among them.
  \<open>localName\<close> is the local name of an element (empty for other nodes); \<open>tagName\<close> is
  what an HTML element reports as its tag name, the local name in ASCII upper case.
\<close>

type_synonym ref = nat

datatype node_kind =
    ELEMENT_NODE
  | TEXT_NODE
  | CDATA_SECTION_NODE
  | PROCESSING_INSTRUCTION_NODE
  | COMMENT_NODE

record dom_node =
  nodeType :: node_kind
  localName :: string
  attributes :: "(string \<times> string) list"
  parentNode :: "ref option"
  childNodes :: "ref list"

type_synonym dom_heap = "dom_node list"

datatype error =
    InvalidElement
  | SyntaxError
  | InvalidCharacterError
  | HierarchyRequestError

definition tagName :: "dom_node \<Rightarrow> string" where
  "tagName d = ascii_uppercase (localName d)"

text \<open>
  \<open>isElementDOMNode\<close> of @remirror/core: a DOM node whose \<open>nodeType\<close> is
  \<open>Node.ELEMENT_NODE\<close>. (\<open>isDOMNode\<close>, \<open>isString\<close> and \<open>isPlainObject\<close> are the
  constructor tests of \<open>dom_spec\<close> and \<open>spec_item\<close> below.)
\<close>

definition isElementDOMNode :: "dom_heap \<Rightarrow> ref \<Rightarrow> bool" where
  "isElementDOMNode h r = (r < length h \<and> nodeType (h ! r) = ELEMENT_NODE)"

text \<open>
  \<open>document.createElement(name)\<close>: an \<open>InvalidCharacterError\<close> for an ill-formed name;
  otherwise a fresh element without attributes, parent or children, whose local name is
  the name in ASCII lower case.
\<close>

definition new_element :: "string \<Rightarrow> dom_node" where
  "new_element tag =
     \<lparr>nodeType = ELEMENT_NODE, localName = tag, attributes = [],
      parentNode = None, childNodes = []\<rparr>"

definition createElement :: "string \<Rightarrow> dom_heap \<Rightarrow> error + ref \<times> dom_heap" where
  "createElement name h =
     (if \<not> is_Name name then Inl InvalidCharacterError
      else Inr (length h, h @ [new_element (ascii_lowercase name)]))"

text \<open>
  \<open>element.setAttribute(name, v)\<close>: an \<open>InvalidCharacterError\<close> for an ill-formed name;
  otherwise the attribute named by the name in ASCII lower case is overwritten where it
  stands, or added after the others. \<open>element.getAttribute(name)\<close> reads the attribute
  named by the name in ASCII lower case. A reference outside the store denotes no object:
  operations on it change nothing.
\<close>

fun put_attr :: "string \<Rightarrow> string \<Rightarrow> (string \<times> string) list \<Rightarrow> (string \<times> string) list" where
  "put_attr k v [] = [(k, v)]"
| "put_attr k v ((k', v') # kvs) =
     (if k' = k then (k, v) # kvs else (k', v') # put_attr k v kvs)"

definition store_attr :: "ref \<Rightarrow> string \<Rightarrow> string \<Rightarrow> dom_heap \<Rightarrow> dom_heap" where
  "store_attr r k v h =
     (if r < length h then h[r := (h ! r)\<lparr>attributes := put_attr k v (attributes (h ! r))\<rparr>]
      else h)"

definition setAttribute :: "ref \<Rightarrow> string \<Rightarrow> string \<Rightarrow> dom_heap \<Rightarrow> error + dom_heap" where
  "setAttribute r name v h =
     (if \<not> is_Name name then Inl InvalidCharacterError
      else Inr (store_attr r (ascii_lowercase name) v h))"

definition getAttribute :: "dom_heap \<Rightarrow> ref \<Rightarrow> string \<Rightarrow> string option" where
  "getAttribute h r name =
     (if r < length h then map_of (attributes (h ! r)) (ascii_lowercase name) else None)"

text \<open>
  \<open>element.classList.add(t1, ..., tn)\<close>: a \<open>SyntaxError\<close> for an empty token, an
  \<open>InvalidCharacterError\<close> for a token with ASCII whitespace (the tokens are checked in
  order); otherwise the tokens of the \<open>class\<close> attribute, followed by the new ones that
  are not yet among them, become the \<open>class\<close> attribute again.
\<close>

definition is_ws :: "char \<Rightarrow> bool" where
  "is_ws c = (c \<in> set [CHR 0x09, CHR 0x0A, CHR 0x0C, CHR 0x0D, CHR '' ''])"

fun split_ws :: "string \<Rightarrow> string \<Rightarrow> string list" where
  "split_ws cur [] = (if cur = [] then [] else [cur])"
| "split_ws cur (c # cs) =
     (if is_ws c then (if cur = [] then [] else [cur]) @ split_ws [] cs
      else split_ws (cur @ [c]) cs)"

fun ordered_set :: "string list \<Rightarrow> string list \<Rightarrow> string list" where
  "ordered_set acc [] = acc"
| "ordered_set acc (t # ts) = ordered_set (if t \<in> set acc then acc else acc @ [t]) ts"

fun join_tokens :: "string list \<Rightarrow> string" where
  "join_tokens [] = []"
| "join_tokens [t] = t"
| "join_tokens (t # ts) = t @ '' '' @ join_tokens ts"

fun validate_tokens :: "string list \<Rightarrow> error option" where
  "validate_tokens [] = None"
| "validate_tokens (t # ts) =
     (if t = [] then Some SyntaxError
      else if list_ex is_ws t then Some InvalidCharacterError
      else validate_tokens ts)"

definition classList_add :: "ref \<Rightarrow> string list \<Rightarrow> dom_heap \<Rightarrow> error + dom_heap" where
  "classList_add r toks h =
     (case validate_tokens toks of
        Some err \<Rightarrow> Inl err
      | None \<Rightarrow>
          (let old = (case getAttribute h r ''class'' of Some v \<Rightarrow> v | None \<Rightarrow> [])
           in Inr (store_attr r ''class''
                     (join_tokens (ordered_set [] (split_ws [] old @ toks))) h)))"

text \<open>
  \<open>a.contains(b)\<close>: \<open>b\<close> is \<open>a\<close> or a descendant of \<open>a\<close>, found by following the parent
  links from \<open>b\<close>. A chain of parents in a store of \<open>n\<close> nodes has at most \<open>n\<close> links, which
  bounds the walk.
\<close>

definition parent_of :: "dom_heap \<Rightarrow> ref \<Rightarrow> ref option" where
  "parent_of h r = (if r < length h then parentNode (h ! r) else None)"

fun ancestor_walk :: "nat \<Rightarrow> dom_heap \<Rightarrow> ref \<Rightarrow> ref \<Rightarrow> bool" where
  "ancestor_walk 0 h a b = (a = b)"
| "ancestor_walk (Suc k) h a b =
     (a = b \<or> (case parent_of h b of None \<Rightarrow> False | Some p \<Rightarrow> ancestor_walk k h a p))"

definition contains :: "dom_heap \<Rightarrow> ref \<Rightarrow> ref \<Rightarrow> bool" where
  "contains h a b = ancestor_walk (length h) h a b"

text \<open>
  \<open>parent.appendChild(child)\<close>: a \<open>HierarchyRequestError\<close> when the parent is not a node
  that can have children (of the nodes of the store, only an element can), or when the
  child is the parent or one of its ancestors; otherwise the child leaves its former parent
  and becomes the last child of the new one.
\<close>

definition detach :: "ref \<Rightarrow> dom_heap \<Rightarrow> dom_heap" where
  "detach c h =
     (case parent_of h c of
        None \<Rightarrow> h
      | Some p \<Rightarrow>
          (let h1 = (if p < length h
                     then h[p := (h ! p)\<lparr>childNodes := removeAll c (childNodes (h ! p))\<rparr>]
                     else h)
           in h1[c := (h1 ! c)\<lparr>parentNode := None\<rparr>]))"

definition appendChild :: "ref \<Rightarrow> ref \<Rightarrow> dom_heap \<Rightarrow> error + dom_heap" where
  "appendChild p c h =
     (if \<not> (p < length h \<and> c < length h) then Inr h
      else if nodeType (h ! p) \<noteq> ELEMENT_NODE then Inl HierarchyRequestError
      else if contains h c p then Inl HierarchyRequestError
      else
        (let h1 = detach c h;
             h2 = h1[c := (h1 ! c)\<lparr>parentNode := Some p\<rparr>]
         in Inr (h2[p := (h2 ! p)\<lparr>childNodes := childNodes (h2 ! p) @ [c]\<rparr>])))"

subsection \<open>ProseMirror nodes, node types and DOM specs\<close>

text \<open>
  What the adapter reads of a ProseMirror node: its type (an object, compared by identity
  in \<open>update\<close>, hence a reference into a table of node types), its attribute object and
  \<open>isInline\<close>. A node type has a name and, in its spec, an optional \<open>toDOM\<close>. The result
  of \<open>toDOM\<close> is a string, a DOM node, or an array whose first element is the tag name;
  the second element of such an array may be a plain object of attributes, the hole \<open>0\<close> or
  a child spec. An attribute object is the list of its entries in the order of
  \<open>Object.keys\<close>.
\<close>

record pm_node =
  ntype :: nat
  attrs :: "(string \<times> js_value) list"
  isInline :: bool

datatype dom_spec =
    SpecString string
  | SpecNode ref
  | SpecArray string "spec_item list"
and spec_item =
    ItemAttrs "(string \<times> js_value) list"
  | ItemHole
  | ItemSpec dom_spec

record node_type =
  type_name :: string
  toDOM :: "(pm_node \<Rightarrow> dom_spec) option"

text \<open>
  Modelled from the spec: \<open>node.sameMarkup(other)\<close> is a method of the editor engine, not
  of this repository. The glossary: "a node-level check for same type and same non-content
  attributes". Attribute objects are compared as sets of entries, since the order of the
  keys of an object is not part of its value.
\<close>

definition sameMarkup :: "pm_node \<Rightarrow> pm_node \<Rightarrow> bool" where
  "sameMarkup a b = (ntype a = ntype b \<and> set (attrs a) = set (attrs b))"

subsection \<open>The adapter and its surroundings\<close>

datatype portal_call = PortalRender ref | PortalRemove ref

text \<open>
  The state: the fields of the adapter that the methods read or write (\<open>view\<close>,
  \<open>getPosition\<close>, \<open>props\<close> and \<open>Component\<close> are only handed on to the rendered
  component), the document, and the calls received by the portal container.
\<close>

record 'st state =
  node :: pm_node
  style :: 'st
  withoutEmotion :: bool
  domRef :: "ref option"
  contentDOMWrapper :: "ref option"
  contentDOM :: "ref option"
  heap :: dom_heap
  portal :: "portal_call list"

text \<open>
  What the class takes from outside: the node types of the schema, the constant
  \<open>EDITOR_CLASS_NAME\<close> of @remirror/core, emotion's \<open>css\<close>, and the method
  \<open>getContentDOM\<close>, which a subclass overrides (the class itself returns \<open>undefined\<close>).
\<close>

record 'st env =
  types :: "nat \<Rightarrow> node_type"
  EDITOR_CLASS_NAME :: string
  css :: "'st \<Rightarrow> string"
  getContentDOM :: "'st state \<Rightarrow> (ref \<times> ref option) option"

definition document_createElement :: "string \<Rightarrow> 'st state \<Rightarrow> (error + ref) \<times> 'st state" where
  "document_createElement tag s =
     (case createElement tag (heap s) of
        Inl err \<Rightarrow> (Inl err, s)
      | Inr (r, h) \<Rightarrow> (Inr r, s\<lparr>heap := h\<rparr>))"

text \<open>\<open>createDomRef\<close> (lines 138-158).\<close>

definition createDomRef :: "'st env \<Rightarrow> 'st state \<Rightarrow> (error + ref) \<times> 'st state" where
  "createDomRef e s =
     (case toDOM (types e (ntype (node s))) of
        Some f \<Rightarrow>
          (case f (node s) of
             SpecString tag \<Rightarrow> document_createElement tag s
           | SpecNode r \<Rightarrow>
               (if \<not> isElementDOMNode (heap s) r then (Inl InvalidElement, s)
                else (Inr r, s))
           | SpecArray tag rest \<Rightarrow> document_createElement tag s)
      | None \<Rightarrow>
          (if isInline (node s) then document_createElement ''span'' s
           else document_createElement ''div'' s))"

text \<open>
  \<open>setDomAttrs\<close> (lines 213-236). The \<open>toDOM\<close> is the one of the adapter's own node
  type (\<open>this.node.type.spec\<close>), applied to the node given. \<open>copy_keys\<close> is the
  \<open>Object.keys(obj).forEach(...)\<close> loop of both branches: it stops at the first key
  that \<open>setAttribute\<close> refuses, and the attributes set before stay.
\<close>

fun copy_keys ::
  "ref \<Rightarrow> (string \<times> js_value) list \<Rightarrow> string list \<Rightarrow> dom_heap \<Rightarrow> (error + unit) \<times> dom_heap" where
  "copy_keys el obj [] h = (Inr (), h)"
| "copy_keys el obj (k # ks) h =
     (case setAttribute el k (js_String (js_get obj k)) h of
        Inl err \<Rightarrow> (Inl err, h)
      | Inr h' \<Rightarrow> copy_keys el obj ks h')"

definition copy_attrs ::
  "ref \<Rightarrow> (string \<times> js_value) list \<Rightarrow> 'st state \<Rightarrow> (error + unit) \<times> 'st state" where
  "copy_attrs el obj s =
     (case copy_keys el obj (map fst obj) (heap s) of (res, h) \<Rightarrow> (res, s\<lparr>heap := h\<rparr>))"

definition setDomAttrs ::
  "'st env \<Rightarrow> pm_node \<Rightarrow> ref \<Rightarrow> 'st state \<Rightarrow> (error + unit) \<times> 'st state" where
  "setDomAttrs e n el s =
     (case toDOM (types e (ntype (node s))) of
        Some f \<Rightarrow>
          (case f n of
             SpecString tag \<Rightarrow> (Inr (), s)
           | SpecNode r \<Rightarrow> (Inr (), s)
           | SpecArray tag rest \<Rightarrow>
               (case rest of
                  ItemAttrs obj # others \<Rightarrow> copy_attrs el obj s
                | _ \<Rightarrow> copy_attrs el (attrs n) s))
      | None \<Rightarrow> copy_attrs el (attrs n) s)"

text \<open>\<open>renderReactComponent\<close> (lines 127-133); the render closure is never absent.\<close>

definition renderReactComponent :: "'st state \<Rightarrow> 'st state" where
  "renderReactComponent s =
     (case domRef s of
        None \<Rightarrow> s
      | Some d \<Rightarrow> s\<lparr>portal := portal s @ [PortalRender d]\<rparr>)"

text \<open>\<open>init\<close> (lines 105-125).\<close>

definition attach_content ::
  "(ref \<times> ref option) option \<Rightarrow> 'st state \<Rightarrow> (error + unit) \<times> 'st state" where
  "attach_content got s =
     (case (domRef s, got) of
        (Some d, Some (wrapper, content)) \<Rightarrow>
          (case appendChild d wrapper (heap s) of
             Inl err \<Rightarrow> (Inl err, s)
           | Inr h \<Rightarrow>
               (Inr (),
                s\<lparr>heap := h,
                  contentDOM := Some (case content of Some c \<Rightarrow> c | None \<Rightarrow> wrapper),
                  contentDOMWrapper := Some wrapper\<rparr>))
      | _ \<Rightarrow> (Inr (), s))"

definition node_view_class :: "'st env \<Rightarrow> 'st state \<Rightarrow> string list" where
  "node_view_class e s =
     [EDITOR_CLASS_NAME e @ ''-'' @ type_name (types e (ntype (node s))) @ ''-node-view'',
      if withoutEmotion s then [] else css e (style s)]"

definition init :: "'st env \<Rightarrow> 'st state \<Rightarrow> (error + unit) \<times> 'st state" where
  "init e s =
     (case createDomRef e s of
        (Inl err, s0) \<Rightarrow> (Inl err, s0)
      | (Inr r, s0) \<Rightarrow>
          (let s1 = s0\<lparr>domRef := Some r\<rparr>
           in case setDomAttrs e (node s1) r s1 of
                (Inl err, s2) \<Rightarrow> (Inl err, s2)
              | (Inr u, s2) \<Rightarrow>
                  (case attach_content (getContentDOM e s2) s2 of
                     (Inl err, s3) \<Rightarrow> (Inl err, s3)
                   | (Inr u', s3) \<Rightarrow>
                       (case classList_add r (node_view_class e s3) (heap s3) of
                          Inl err \<Rightarrow> (Inl err, s3)
                        | Inr h \<Rightarrow> (Inr (), renderReactComponent (s3\<lparr>heap := h\<rparr>))))))"

text \<open>\<open>handleRef\<close> (lines 164-171).\<close>

definition handleRef :: "ref option \<Rightarrow> 'st state \<Rightarrow> (error + unit) \<times> 'st state" where
  "handleRef arg s =
     (let content = (case contentDOMWrapper s of Some w \<Rightarrow> Some w | None \<Rightarrow> contentDOM s)
      in case (arg, content) of
           (Some n, Some c) \<Rightarrow>
             (if \<not> contains (heap s) n c then
                (case appendChild n c (heap s) of
                   Inl err \<Rightarrow> (Inl err, s)
                 | Inr h \<Rightarrow> (Inr (), s\<lparr>heap := h\<rparr>))
              else (Inr (), s))
         | _ \<Rightarrow> (Inr (), s))"

text \<open>
  \<open>update\<close> (lines 186-206). The decorations are not used; \<open>validUpdate\<close> is the
  predicate of the caller, not called when the types differ. When \<open>setDomAttrs\<close> throws,
  the node is not replaced and nothing is rendered.
\<close>

definition update ::
  "'st env \<Rightarrow> pm_node \<Rightarrow> (pm_node \<Rightarrow> pm_node \<Rightarrow> bool) \<Rightarrow> 'st state \<Rightarrow>
     (error + bool) \<times> 'st state" where
  "update e n validUpdate s =
     (let isValidUpdate = (ntype (node s) = ntype n \<and> validUpdate (node s) n)
      in if \<not> isValidUpdate then (Inr False, s)
         else
           (case (case domRef s of
                    Some d \<Rightarrow>
                      if \<not> sameMarkup (node s) n then setDomAttrs e n d s else (Inr (), s)
                  | None \<Rightarrow> (Inr (), s)) of
              (Inl err, s1) \<Rightarrow> (Inl err, s1)
            | (Inr u, s1) \<Rightarrow> (Inr True, renderReactComponent (s1\<lparr>node := n\<rparr>))))"

text \<open>\<open>destroy\<close> (lines 241-249).\<close>

definition destroy :: "'st state \<Rightarrow> 'st state" where
  "destroy s =
     (case domRef s of
        None \<Rightarrow> s
      | Some d \<Rightarrow> s\<lparr>portal := portal s @ [PortalRemove d], domRef := None, contentDOM := None\<rparr>)"

text \<open>
  The constructor (lines 85-94, with the field initialisers of lines 70-72): it stores its
  arguments and leaves the three DOM references empty; it renders nothing.
\<close>

definition construct ::
  "pm_node \<Rightarrow> 'st \<Rightarrow> bool \<Rightarrow> dom_heap \<Rightarrow> portal_call list \<Rightarrow> 'st state" where
  "construct n sty without h calls =
     \<lparr>node = n, style = sty, withoutEmotion = without, domRef = None,
      contentDOMWrapper = None, contentDOM = None, heap = h, portal = calls\<rparr>"

subsection \<open>What the spec expects of the attribute copy\<close>

text \<open>
  The attribute object that the attribute sync takes from a node: the attribute object of
  the array that \<open>toDOM\<close> yields or, absent a spec (or an attribute object in it), the
  node's own attribute map; nothing for a spec that is a string or a DOM node.
  \<open>html_attributes\<close> is what an HTML element makes of such an object: the names in ASCII
  lower case, the values converted to strings, in the order of the keys (of two keys with
  the same lower-case form the later one counts). \<open>attrs_exactly\<close> says that an element
  carries exactly these attributes and no other.
\<close>

definition attr_source :: "'st env \<Rightarrow> pm_node \<Rightarrow> (string \<times> js_value) list" where
  "attr_source e n =
     (case toDOM (types e (ntype n)) of
        None \<Rightarrow> attrs n
      | Some f \<Rightarrow>
          (case f n of
             SpecArray tag (ItemAttrs obj # others) \<Rightarrow> obj
           | SpecArray tag others \<Rightarrow> attrs n
           | _ \<Rightarrow> []))"

definition html_attributes :: "(string \<times> js_value) list \<Rightarrow> (string \<times> string) list" where
  "html_attributes obj =
     map (\<lambda>k. (ascii_lowercase k, js_String (js_get obj k))) (map fst obj)"

definition attrs_exactly :: "dom_heap \<Rightarrow> ref \<Rightarrow> (string \<times> js_value) list \<Rightarrow> bool" where
  "attrs_exactly h r obj = (set (attributes (h ! r)) = set (html_attributes obj))"

subsection \<open>A small schema and document\<close>

text \<open>
  Node types: a block without \<open>toDOM\<close>, an inline one whose \<open>toDOM\<close> yields an array
  with attributes, one whose \<open>toDOM\<close> yields a tag name, one whose \<open>toDOM\<close> yields the
  DOM node \<open>0\<close>, one whose \<open>toDOM\<close> yields a tag name in mixed case, and one whose
  \<open>toDOM\<close> yields the empty string. The document starts with a text node and an element
  that a subclass hands out as its content wrapper.
\<close>

definition ex_types :: "nat \<Rightarrow> node_type" where
  "ex_types t =
     (if t = 0 then \<lparr>type_name = ''paragraph'', toDOM = None\<rparr>
      else if t = 1 then
        \<lparr>type_name = ''link'',
         toDOM = Some (\<lambda>n. SpecArray ''a'' [ItemAttrs [(''href'', js_get (attrs n) ''href'')], ItemHole])\<rparr>
      else if t = 2 then \<lparr>type_name = ''hard_break'', toDOM = Some (\<lambda>n. SpecString ''br'')\<rparr>
      else if t = 3 then \<lparr>type_name = ''broken'', toDOM = Some (\<lambda>n. SpecNode 0)\<rparr>
      else if t = 4 then \<lparr>type_name = ''rule'', toDOM = Some (\<lambda>n. SpecString ''Hr'')\<rparr>
      else \<lparr>type_name = ''nameless'', toDOM = Some (\<lambda>n. SpecString [])\<rparr>)"

definition ex_env :: "unit env" where
  "ex_env =
     \<lparr>types = ex_types, EDITOR_CLASS_NAME = ''remirror-editor'',
      css = (\<lambda>u. ''css-0''), getContentDOM = (\<lambda>s. None)\<rparr>"

definition ex_env_content :: "unit env" where
  "ex_env_content = ex_env\<lparr>getContentDOM := (\<lambda>s. Some (1, None))\<rparr>"

definition ex_heap :: dom_heap where
  "ex_heap =
     [\<lparr>nodeType = TEXT_NODE, localName = [], attributes = [], parentNode = None, childNodes = []\<rparr>,
      new_element ''div'']"

definition ex_para :: pm_node where
  "ex_para =
     \<lparr>ntype = 0, attrs = [(''title'', JStr ''old''), (''level'', JNum ''2'')], isInline = False\<rparr>"

definition ex_para2 :: pm_node where
  "ex_para2 = \<lparr>ntype = 0, attrs = [(''level'', JNum ''3'')], isInline = False\<rparr>"

definition ex_para3 :: pm_node where
  "ex_para3 =
     \<lparr>ntype = 0, attrs = [(''Title'', JStr ''new''), (''level'', JNum ''1e+21'')], isInline = False\<rparr>"

definition ex_link :: pm_node where
  "ex_link = \<lparr>ntype = 1, attrs = [(''href'', JStr ''/a'')], isInline = True\<rparr>"

definition ex_break :: pm_node where
  "ex_break = \<lparr>ntype = 2, attrs = [], isInline = True\<rparr>"

definition ex_broken :: pm_node where
  "ex_broken = \<lparr>ntype = 3, attrs = [], isInline = False\<rparr>"

definition ex_rule :: pm_node where
  "ex_rule = \<lparr>ntype = 4, attrs = [], isInline = False\<rparr>"

definition ex_nameless :: pm_node where
  "ex_nameless = \<lparr>ntype = 5, attrs = [], isInline = False\<rparr>"

text \<open>An inline node of the type without \<open>toDOM\<close>.\<close>

definition ex_inline :: pm_node where
  "ex_inline = \<lparr>ntype = 0, attrs = [], isInline = True\<rparr>"

text \<open>
  The default of the parameter \<open>validUpdate\<close> of \<open>update\<close> (\<open>() => true\<close>), a predicate
  a caller may pass in its place (the heading level must stay), and two adapters after
  \<open>init\<close>: one of the class itself, one of a subclass with a content wrapper.
\<close>

definition default_validUpdate :: "pm_node \<Rightarrow> pm_node \<Rightarrow> bool" where
  "default_validUpdate current new = True"

definition ex_validUpdate :: "pm_node \<Rightarrow> pm_node \<Rightarrow> bool" where
  "ex_validUpdate current new = (js_get (attrs current) ''level'' = js_get (attrs new) ''level'')"

definition ex_mounted :: "unit state" where
  "ex_mounted = snd (init ex_env (construct ex_para () False ex_heap []))"

definition ex_mounted_content :: "unit state" where
  "ex_mounted_content = snd (init ex_env_content (construct ex_para () False ex_heap []))"

text \<open>
  The document after the component of the subclass adapter has rendered a \<open>p\<close> element:
  in \<open>ex_rendered\<close> into the backing element, beside the content wrapper; in
  \<open>ex_nested\<close> into the content wrapper itself. The \<open>p\<close> element is the node that the
  renderer hands to \<open>handleRef\<close>.
\<close>

definition render_p_into :: "ref \<Rightarrow> unit state \<Rightarrow> unit state" where
  "render_p_into container s =
     (case createElement ''p'' (heap s) of
        Inl err \<Rightarrow> s
      | Inr (r, h) \<Rightarrow>
          (case appendChild container r h of
             Inl err \<Rightarrow> s
           | Inr h' \<Rightarrow> s\<lparr>heap := h'\<rparr>))"

definition ex_rendered :: "unit state" where
  "ex_rendered = render_p_into 2 ex_mounted_content"

definition ex_nested :: "unit state" where
  "ex_nested = render_p_into 1 ex_mounted_content"

section \<open>Properties\<close>

subsection \<open>Names and letter case\<close>

lemma upper_lower_char: "upper_char (lower_char c) = upper_char c"
  by (auto simp: upper_char_def lower_char_def Let_def)

lemma ascii_uppercase_lowercase: "ascii_uppercase (ascii_lowercase s) = ascii_uppercase s"
  by (simp add: ascii_uppercase_def ascii_lowercase_def upper_lower_char)

lemma is_Name_span_div: "is_Name ''span''" "is_Name ''div''"
  "ascii_lowercase ''span'' = ''span''" "ascii_lowercase ''div'' = ''div''"
  by (simp_all add: is_Name_def is_NameStartChar_def is_NameChar_def ascii_lowercase_def
      lower_char_def)

subsection \<open>The store: what an attribute write changes and what it leaves\<close>

lemma map_update_proj:
  "f x = f (h ! r) \<Longrightarrow> map f (h[r := x]) = map f h"
  by (cases "r < length h") (simp_all add: map_update list_update_same_conv list_update_beyond)

lemma store_attr_frame:
  "length (store_attr r k v h) = length h"
  "map localName (store_attr r k v h) = map localName h"
  "map nodeType (store_attr r k v h) = map nodeType h"
  "map parentNode (store_attr r k v h) = map parentNode h"
  "map childNodes (store_attr r k v h) = map childNodes h"
  by (simp_all add: store_attr_def map_update_proj)

lemma store_attr_other: "r' \<noteq> r \<Longrightarrow> store_attr r k v h ! r' = h ! r'"
  by (simp add: store_attr_def)

lemma map_of_put_attr: "map_of (put_attr k v kvs) = (map_of kvs)(k \<mapsto> v)"
  by (induction kvs) (auto simp: fun_eq_iff)

lemma getAttribute_store_attr:
  "getAttribute (store_attr r k v h) r' name =
     (if r' = r \<and> r < length h \<and> ascii_lowercase name = k then Some v
      else getAttribute h r' name)"
  by (auto simp: getAttribute_def store_attr_def map_of_put_attr nth_list_update)

lemma setAttribute_Inr:
  "setAttribute r k v h = Inr h' \<Longrightarrow> h' = store_attr r (ascii_lowercase k) v h"
  by (simp add: setAttribute_def split: if_splits)

text \<open>
  The \<open>forEach\<close> loop, by induction on the keys still to copy.
\<close>

lemma copy_keys_frame:
  "length (snd (copy_keys el obj ks h)) = length h"
  "map localName (snd (copy_keys el obj ks h)) = map localName h"
  "map nodeType (snd (copy_keys el obj ks h)) = map nodeType h"
  "map parentNode (snd (copy_keys el obj ks h)) = map parentNode h"
  "map childNodes (snd (copy_keys el obj ks h)) = map childNodes h"
  by (induction ks arbitrary: h)
     (auto simp: store_attr_frame split: sum.splits dest!: setAttribute_Inr)

lemma copy_keys_other:
  "r \<noteq> el \<Longrightarrow> snd (copy_keys el obj ks h) ! r = h ! r"
  by (induction ks arbitrary: h)
     (auto simp: store_attr_other split: sum.splits dest!: setAttribute_Inr)

lemma getAttribute_copy_keys:
  "copy_keys el obj ks h = (Inr (), h') \<Longrightarrow> el < length h \<Longrightarrow>
   getAttribute h' el name =
     (case map_of (rev (map (\<lambda>k. (ascii_lowercase k, js_String (js_get obj k))) ks))
             (ascii_lowercase name) of
        Some v \<Rightarrow> Some v
      | None \<Rightarrow> getAttribute h el name)"
proof (induction ks arbitrary: h)
  case Nil
  then show ?case by simp
next
  case (Cons k ks)
  from Cons.prems(1) obtain h1 where
    set: "setAttribute el k (js_String (js_get obj k)) h = Inr h1"
    and rest: "copy_keys el obj ks h1 = (Inr (), h')"
    by (auto split: sum.splits)
  from set have h1: "h1 = store_attr el (ascii_lowercase k) (js_String (js_get obj k)) h"
    by (rule setAttribute_Inr)
  with Cons.prems(2) have "el < length h1"
    by (simp add: store_attr_frame)
  from Cons.IH [OF rest this] show ?case
    using Cons.prems(2)
    by (auto simp: h1 getAttribute_store_attr map_add_def split: option.splits)
qed

subsection \<open>\<open>setDomAttrs\<close> and \<open>renderReactComponent\<close>\<close>

lemma copy_attrs_fields:
  "node (snd (copy_attrs el obj s)) = node s"
  "domRef (snd (copy_attrs el obj s)) = domRef s"
  "contentDOM (snd (copy_attrs el obj s)) = contentDOM s"
  "contentDOMWrapper (snd (copy_attrs el obj s)) = contentDOMWrapper s"
  "portal (snd (copy_attrs el obj s)) = portal s"
  "withoutEmotion (snd (copy_attrs el obj s)) = withoutEmotion s"
  "style (snd (copy_attrs el obj s)) = style s"
  "heap (snd (copy_attrs el obj s)) = snd (copy_keys el obj (map fst obj) (heap s))"
  by (simp_all add: copy_attrs_def split: prod.splits)

lemma setDomAttrs_fields:
  "node (snd (setDomAttrs e n el s)) = node s"
  "domRef (snd (setDomAttrs e n el s)) = domRef s"
  "contentDOM (snd (setDomAttrs e n el s)) = contentDOM s"
  "contentDOMWrapper (snd (setDomAttrs e n el s)) = contentDOMWrapper s"
  "portal (snd (setDomAttrs e n el s)) = portal s"
  "withoutEmotion (snd (setDomAttrs e n el s)) = withoutEmotion s"
  "style (snd (setDomAttrs e n el s)) = style s"
  by (simp_all add: setDomAttrs_def copy_attrs_fields
      split: option.splits dom_spec.splits list.splits spec_item.splits)

lemma setDomAttrs_frame:
  "length (heap (snd (setDomAttrs e n el s))) = length (heap s)"
  "map localName (heap (snd (setDomAttrs e n el s))) = map localName (heap s)"
  "map nodeType (heap (snd (setDomAttrs e n el s))) = map nodeType (heap s)"
  "map parentNode (heap (snd (setDomAttrs e n el s))) = map parentNode (heap s)"
  "map childNodes (heap (snd (setDomAttrs e n el s))) = map childNodes (heap s)"
  by (simp_all add: setDomAttrs_def copy_attrs_fields copy_keys_frame
      split: option.splits dom_spec.splits list.splits spec_item.splits)

lemma setDomAttrs_other:
  "r \<noteq> el \<Longrightarrow> heap (snd (setDomAttrs e n el s)) ! r = heap s ! r"
  by (simp add: setDomAttrs_def copy_attrs_fields copy_keys_other
      split: option.splits dom_spec.splits list.splits spec_item.splits)

lemma getAttribute_copy_attrs:
  assumes "copy_attrs el obj s = (Inr (), s')" and "el < length (heap s)"
  shows "getAttribute (heap s') el name =
           (case map_of (rev (html_attributes obj)) (ascii_lowercase name) of
              Some v \<Rightarrow> Some v
            | None \<Rightarrow> getAttribute (heap s) el name)"
proof -
  from assms(1) have "copy_keys el obj (map fst obj) (heap s) = (Inr (), heap s')"
    by (auto simp: copy_attrs_def split: prod.splits)
  from getAttribute_copy_keys [OF this assms(2)] show ?thesis
    by (simp add: html_attributes_def)
qed

lemma getAttribute_setDomAttrs:
  assumes "setDomAttrs e n el s = (Inr (), s')" and "ntype (node s) = ntype n"
    and "el < length (heap s)"
  shows "getAttribute (heap s') el name =
           (case map_of (rev (html_attributes (attr_source e n))) (ascii_lowercase name) of
              Some v \<Rightarrow> Some v
            | None \<Rightarrow> getAttribute (heap s) el name)"
  using assms
  by (auto simp: setDomAttrs_def attr_source_def getAttribute_copy_attrs html_attributes_def
      split: option.splits dom_spec.splits list.splits spec_item.splits)

lemma renderReactComponent_fields:
  "node (renderReactComponent s) = node s"
  "domRef (renderReactComponent s) = domRef s"
  "contentDOM (renderReactComponent s) = contentDOM s"
  "contentDOMWrapper (renderReactComponent s) = contentDOMWrapper s"
  "heap (renderReactComponent s) = heap s"
  by (simp_all add: renderReactComponent_def split: option.splits)

lemma update_accepted:
  assumes "fst (update e n validUpdate s) = Inr True"
  shows "ntype (node s) = ntype n"
    and "\<exists>s1. (case domRef s of
                 Some d \<Rightarrow> if \<not> sameMarkup (node s) n then setDomAttrs e n d s else (Inr (), s)
               | None \<Rightarrow> (Inr (), s)) = (Inr (), s1) \<and>
              snd (update e n validUpdate s) = renderReactComponent (s1\<lparr>node := n\<rparr>)"
  using assms
  by (auto simp: update_def Let_def split: if_splits prod.splits sum.splits)

subsection \<open>\<open>appendChild\<close>, \<open>classList.add\<close> and \<open>init\<close>: names and node types stay\<close>

lemma detach_frame:
  "length (detach c h) = length h"
  "map localName (detach c h) = map localName h"
  "map nodeType (detach c h) = map nodeType h"
  by (simp_all add: detach_def Let_def map_update_proj split: option.splits)

lemma appendChild_frame:
  assumes "appendChild p c h = Inr h'"
  shows "length h' = length h"
    and "map localName h' = map localName h"
    and "map nodeType h' = map nodeType h"
  using assms
  by (auto simp: appendChild_def Let_def detach_frame map_update_proj split: if_splits)

lemma classList_add_frame:
  assumes "classList_add r toks h = Inr h'"
  shows "length h' = length h"
    and "map localName h' = map localName h"
    and "map nodeType h' = map nodeType h"
  using assms
  by (auto simp: classList_add_def Let_def store_attr_frame split: option.splits)

lemma attach_content_frame:
  "domRef (snd (attach_content got s)) = domRef s"
  "length (heap (snd (attach_content got s))) = length (heap s)"
  "map localName (heap (snd (attach_content got s))) = map localName (heap s)"
  "map nodeType (heap (snd (attach_content got s))) = map nodeType (heap s)"
  by (auto simp: attach_content_def appendChild_frame split: option.splits sum.splits prod.splits)

lemma init_after_createDomRef:
  assumes "createDomRef e s = (Inr r, s0)"
  shows "domRef (snd (init e s)) = Some r"
    and "length (heap (snd (init e s))) = length (heap s0)"
    and "map localName (heap (snd (init e s))) = map localName (heap s0)"
    and "map nodeType (heap (snd (init e s))) = map nodeType (heap s0)"
proof -
  define s2 where "s2 = snd (setDomAttrs e (node (s0\<lparr>domRef := Some r\<rparr>)) r (s0\<lparr>domRef := Some r\<rparr>))"
  define s3 where "s3 = snd (attach_content (getContentDOM e s2) s2)"
  have s2: "domRef s2 = Some r" "length (heap s2) = length (heap s0)"
    "map localName (heap s2) = map localName (heap s0)"
    "map nodeType (heap s2) = map nodeType (heap s0)"
    by (simp_all add: s2_def setDomAttrs_fields setDomAttrs_frame)
  have s3: "domRef s3 = Some r" "length (heap s3) = length (heap s0)"
    "map localName (heap s3) = map localName (heap s0)"
    "map nodeType (heap s3) = map nodeType (heap s0)"
    by (simp_all add: s3_def attach_content_frame s2)
  have cases: "snd (init e s) = s2 \<or> snd (init e s) = s3 \<or>
    (\<exists>h. classList_add r (node_view_class e s3) (heap s3) = Inr h \<and>
         snd (init e s) = renderReactComponent (s3\<lparr>heap := h\<rparr>))"
    using assms
    by (auto simp: init_def Let_def s3_def s2_def split: prod.splits sum.splits)
  then show "domRef (snd (init e s)) = Some r"
    and "length (heap (snd (init e s))) = length (heap s0)"
    and "map localName (heap (snd (init e s))) = map localName (heap s0)"
    and "map nodeType (heap (snd (init e s))) = map nodeType (heap s0)"
    using s2 s3 by (auto simp: renderReactComponent_fields classList_add_frame)
qed

lemma nth_map_proj:
  "map f h' = map f h \<Longrightarrow> r < length h \<Longrightarrow> f (h' ! r) = f (h ! r)"
  by (metis length_map nth_map)

lemma init_fresh_element:
  assumes "createDomRef e s = (Inr (length (heap s)), s\<lparr>heap := heap s @ [new_element tag]\<rparr>)"
  shows "domRef (snd (init e s)) = Some (length (heap s)) \<and>
         length (heap (snd (init e s))) = Suc (length (heap s)) \<and>
         nodeType (heap (snd (init e s)) ! length (heap s)) = ELEMENT_NODE \<and>
         localName (heap (snd (init e s)) ! length (heap s)) = tag"
proof -
  let ?s0 = "s\<lparr>heap := heap s @ [new_element tag]\<rparr>"
  have "localName (heap (snd (init e s)) ! length (heap s)) = localName (heap ?s0 ! length (heap s))"
    by (rule nth_map_proj [OF init_after_createDomRef(3) [OF assms]]) simp
  moreover have "nodeType (heap (snd (init e s)) ! length (heap s)) = nodeType (heap ?s0 ! length (heap s))"
    by (rule nth_map_proj [OF init_after_createDomRef(4) [OF assms]]) simp
  ultimately show ?thesis
    using init_after_createDomRef(1,2) [OF assms] by (simp add: new_element_def)
qed

lemma createDomRef_ill_formed_name:
  assumes "toDOM (types e (ntype (node s))) = Some f" and "f (node s) = SpecString tag"
    and "\<not> is_Name tag"
  shows "createDomRef e s = (Inl InvalidCharacterError, s)"
    and "init e s = (Inl InvalidCharacterError, s)"
  using assms
  by (simp_all add: init_def createDomRef_def document_createElement_def createElement_def)

subsection \<open>\<open>contains\<close> and \<open>appendChild\<close>\<close>

lemma ancestor_walk_refl: "ancestor_walk k h a a"
  by (cases k) simp_all

lemma contains_refl: "contains h a a"
  by (simp add: contains_def ancestor_walk_refl)

lemma contains_parent:
  assumes "parent_of h c = Some n" and "c < length h"
  shows "contains h n c"
proof -
  from assms(2) obtain k where "length h = Suc k"
    by (cases "length h") simp_all
  with assms(1) show ?thesis
    by (simp add: contains_def ancestor_walk_refl)
qed

lemma detach_nth_other:
  assumes "parent_of h c \<noteq> Some n" and "n \<noteq> c"
  shows "detach c h ! n = h ! n"
  using assms by (auto simp: detach_def Let_def split: option.splits)

lemma detach_former_parent:
  assumes "parent_of h c = Some p" and "p < length h"
  shows "childNodes (detach c h ! p) = removeAll c (childNodes (h ! p))"
  using assms by (cases "p = c") (auto simp: detach_def Let_def parent_of_def split: if_splits)

lemma appendChild_refused:
  assumes "p < length h" and "c < length h"
    and "contains h c p \<or> \<not> isElementDOMNode h p"
  shows "appendChild p c h = Inl HierarchyRequestError"
  using assms by (auto simp: appendChild_def isElementDOMNode_def)

lemma appendChild_success:
  assumes "isElementDOMNode h p" and "c < length h" and "\<not> contains h c p"
  shows "\<exists>h'. appendChild p c h = Inr h' \<and> length h' = length h \<and> parent_of h' c = Some p \<and>
              (\<not> contains h p c \<longrightarrow>
                 childNodes (h' ! p) = childNodes (h ! p) @ [c] \<and>
                 (\<forall>q. parent_of h c = Some q \<and> q < length h \<longrightarrow>
                      childNodes (h' ! q) = removeAll c (childNodes (h ! q))))"
proof -
  from assms(3) have ne: "p \<noteq> c"
    using contains_refl by auto
  from assms(1) have p: "p < length h" "nodeType (h ! p) = ELEMENT_NODE"
    by (simp_all add: isElementDOMNode_def)
  define h1 where "h1 = detach c h"
  define h2 where "h2 = h1[c := (h1 ! c)\<lparr>parentNode := Some p\<rparr>]"
  define h3 where "h3 = h2[p := (h2 ! p)\<lparr>childNodes := childNodes (h2 ! p) @ [c]\<rparr>]"
  have app: "appendChild p c h = Inr h3"
    using assms(2,3) p by (simp add: appendChild_def Let_def h1_def h2_def h3_def)
  have len: "length h3 = length h"
    by (simp add: h3_def h2_def h1_def detach_frame)
  have par: "parent_of h3 c = Some p"
    using ne assms(2) by (simp add: parent_of_def len) (simp add: h3_def h2_def h1_def detach_frame)
  have kids: "childNodes (h3 ! p) = childNodes (h ! p) @ [c]" if "\<not> contains h p c"
  proof -
    from that assms(2) have "parent_of h c \<noteq> Some p"
      using contains_parent by blast
    then have "h1 ! p = h ! p"
      unfolding h1_def using ne by (rule detach_nth_other)
    then show ?thesis
      using ne p(1) by (simp add: h3_def h2_def) (simp add: h1_def detach_frame)
  qed
  have former: "childNodes (h3 ! q) = removeAll c (childNodes (h ! q))"
    if "\<not> contains h p c" "parent_of h c = Some q" "q < length h" for q
  proof -
    from that(1,2) assms(2) have "q \<noteq> p"
      using contains_parent by blast
    moreover have "childNodes (h1 ! q) = removeAll c (childNodes (h ! q))"
      unfolding h1_def using that(2,3) by (rule detach_former_parent)
    moreover have "q < length h1" "c < length h1"
      using that(3) assms(2) by (simp_all add: h1_def detach_frame)
    ultimately show ?thesis
      by (simp add: h3_def h2_def nth_list_update)
  qed
  from app len par kids former show ?thesis
    by blast
qed

subsection \<open>The example adapters, evaluated\<close>

lemmas ex_defs =
  construct_def ex_env_def ex_env_content_def ex_para_def ex_para2_def ex_para3_def ex_link_def
  ex_break_def ex_broken_def ex_rule_def ex_nameless_def ex_inline_def ex_heap_def ex_types_def
  new_element_def

lemmas name_defs =
  is_Name_def is_NameStartChar_def is_NameChar_def ascii_lowercase_def ascii_uppercase_def
  lower_char_def upper_char_def char_of_def bit_Suc_0_iff

lemmas init_defs =
  init_def createDomRef_def document_createElement_def createElement_def setDomAttrs_def
  copy_attrs_def js_get_def setAttribute_def store_attr_def getAttribute_def attach_content_def
  appendChild_def detach_def contains_def parent_of_def classList_add_def node_view_class_def
  renderReactComponent_def isElementDOMNode_def is_ws_def name_defs

lemma ex_mounted_eq:
  "ex_mounted =
     \<lparr>node = ex_para, style = (), withoutEmotion = False, domRef = Some 2,
      contentDOMWrapper = None, contentDOM = None,
      heap =
        [\<lparr>nodeType = TEXT_NODE, localName = [], attributes = [], parentNode = None,
          childNodes = []\<rparr>,
         \<lparr>nodeType = ELEMENT_NODE, localName = ''div'', attributes = [], parentNode = None,
          childNodes = []\<rparr>,
         \<lparr>nodeType = ELEMENT_NODE, localName = ''div'',
          attributes = [(''title'', ''old''), (''level'', ''2''),
                        (''class'', ''remirror-editor-paragraph-node-view css-0'')],
          parentNode = None, childNodes = []\<rparr>],
      portal = [PortalRender 2]\<rparr>"
  by (simp add: ex_mounted_def ex_defs init_defs)

lemma ex_mounted_content_eq:
  "ex_mounted_content =
     \<lparr>node = ex_para, style = (), withoutEmotion = False, domRef = Some 2,
      contentDOMWrapper = Some 1, contentDOM = Some 1,
      heap =
        [\<lparr>nodeType = TEXT_NODE, localName = [], attributes = [], parentNode = None,
          childNodes = []\<rparr>,
         \<lparr>nodeType = ELEMENT_NODE, localName = ''div'', attributes = [], parentNode = Some 2,
          childNodes = []\<rparr>,
         \<lparr>nodeType = ELEMENT_NODE, localName = ''div'',
          attributes = [(''title'', ''old''), (''level'', ''2''),
                        (''class'', ''remirror-editor-paragraph-node-view css-0'')],
          parentNode = None, childNodes = [1]\<rparr>],
      portal = [PortalRender 2]\<rparr>"
  by (simp add: ex_mounted_content_def ex_defs init_defs)

lemma ex_rendered_eq:
  "ex_rendered =
     \<lparr>node = ex_para, style = (), withoutEmotion = False, domRef = Some 2,
      contentDOMWrapper = Some 1, contentDOM = Some 1,
      heap =
        [\<lparr>nodeType = TEXT_NODE, localName = [], attributes = [], parentNode = None,
          childNodes = []\<rparr>,
         \<lparr>nodeType = ELEMENT_NODE, localName = ''div'', attributes = [], parentNode = Some 2,
          childNodes = []\<rparr>,
         \<lparr>nodeType = ELEMENT_NODE, localName = ''div'',
          attributes = [(''title'', ''old''), (''level'', ''2''),
                        (''class'', ''remirror-editor-paragraph-node-view css-0'')],
          parentNode = None, childNodes = [1, 3]\<rparr>,
         \<lparr>nodeType = ELEMENT_NODE, localName = ''p'', attributes = [], parentNode = Some 2,
          childNodes = []\<rparr>],
      portal = [PortalRender 2]\<rparr>"
  by (simp add: ex_rendered_def render_p_into_def ex_mounted_content_eq createElement_def
      appendChild_def detach_def contains_def parent_of_def new_element_def name_defs)

lemma ex_nested_eq:
  "ex_nested =
     \<lparr>node = ex_para, style = (), withoutEmotion = False, domRef = Some 2,
      contentDOMWrapper = Some 1, contentDOM = Some 1,
      heap =
        [\<lparr>nodeType = TEXT_NODE, localName = [], attributes = [], parentNode = None,
          childNodes = []\<rparr>,
         \<lparr>nodeType = ELEMENT_NODE, localName = ''div'', attributes = [], parentNode = Some 2,
          childNodes = [3]\<rparr>,
         \<lparr>nodeType = ELEMENT_NODE, localName = ''div'',
          attributes = [(''title'', ''old''), (''level'', ''2''),
                        (''class'', ''remirror-editor-paragraph-node-view css-0'')],
          parentNode = None, childNodes = [1]\<rparr>,
         \<lparr>nodeType = ELEMENT_NODE, localName = ''p'', attributes = [], parentNode = Some 1,
          childNodes = []\<rparr>],
      portal = [PortalRender 2]\<rparr>"
  by (simp add: ex_nested_def render_p_into_def ex_mounted_content_eq createElement_def
      appendChild_def detach_def contains_def parent_of_def new_element_def name_defs)

lemmas update_defs =
  update_def sameMarkup_def setDomAttrs_def copy_attrs_def js_get_def setAttribute_def
  store_attr_def getAttribute_def renderReactComponent_def default_validUpdate_def
  ex_validUpdate_def name_defs

subsection \<open>Update: rejection\<close>

text \<open>
  Claim C1. \<open>update\<close> returns false whenever the type of the replacement node differs
  from the type of the current node, whatever the predicate \<open>validUpdate\<close> would answer,
  and it returns false whenever the predicate answers false on the pair of the current and
  the replacement node, also when the two types are equal.
\<close>

theorem update_rejects:
  "(ntype n \<noteq> ntype (node s) \<longrightarrow> fst (update e n validUpdate s) = Inr False) \<and>
   (\<not> validUpdate (node s) n \<longrightarrow> fst (update e n validUpdate s) = Inr False)"
  by (auto simp: update_def Let_def)

theorem update_rejects_witness:
  "ntype ex_link \<noteq> ntype (node ex_mounted) \<and>
   default_validUpdate (node ex_mounted) ex_link \<and>
   fst (update ex_env ex_link default_validUpdate ex_mounted) = Inr False \<and>
   ntype ex_para2 = ntype (node ex_mounted) \<and>
   \<not> ex_validUpdate (node ex_mounted) ex_para2 \<and>
   fst (update ex_env ex_para2 ex_validUpdate ex_mounted) = Inr False"
  using update_rejects [where n = ex_link and s = ex_mounted and e = ex_env
      and validUpdate = default_validUpdate]
    update_rejects [where n = ex_para2 and s = ex_mounted and e = ex_env
      and validUpdate = ex_validUpdate]
  by (simp add: ex_mounted_eq ex_defs update_defs)

text \<open>
  Claim C10. A rejected update is atomic: whenever \<open>update\<close> returns false, the whole
  state is the one before the call, so the stored node, the backing element and its
  attributes (the document), and \<open>contentDOM\<close> are unchanged, and the portal container
  has received no render request.
\<close>

theorem update_rejected_atomic:
  "fst (update e n validUpdate s) = Inr False \<Longrightarrow> snd (update e n validUpdate s) = s"
  by (auto simp: update_def Let_def split: if_splits prod.splits sum.splits)

theorem update_rejected_atomic_witness:
  "fst (update ex_env ex_link default_validUpdate ex_mounted) = Inr False \<and>
   snd (update ex_env ex_link default_validUpdate ex_mounted) = ex_mounted \<and>
   portal (snd (update ex_env ex_link default_validUpdate ex_mounted)) = [PortalRender 2]"
proof -
  have rejected: "fst (update ex_env ex_link default_validUpdate ex_mounted) = Inr False"
    by (simp add: ex_mounted_eq ex_defs update_defs)
  from update_rejected_atomic [OF rejected] rejected show ?thesis
    by (simp add: ex_mounted_eq)
qed

subsection \<open>Update: acceptance\<close>

text \<open>
  Claim C9. On an accepted update the backing DOM element is the same object before and
  after the call: \<open>domRef\<close> is the same reference, no DOM node is created, every node
  keeps its name, its type, its parent and its children, and every node but the backing
  element is untouched; only attributes of the backing element may be rewritten.
\<close>

theorem update_keeps_element:
  assumes "fst (update e n validUpdate s) = Inr True"
  shows "domRef (snd (update e n validUpdate s)) = domRef s \<and>
         length (heap (snd (update e n validUpdate s))) = length (heap s) \<and>
         map localName (heap (snd (update e n validUpdate s))) = map localName (heap s) \<and>
         map nodeType (heap (snd (update e n validUpdate s))) = map nodeType (heap s) \<and>
         map parentNode (heap (snd (update e n validUpdate s))) = map parentNode (heap s) \<and>
         map childNodes (heap (snd (update e n validUpdate s))) = map childNodes (heap s) \<and>
         (\<forall>r. domRef s \<noteq> Some r \<longrightarrow>
              heap (snd (update e n validUpdate s)) ! r = heap s ! r)"
proof -
  from update_accepted(2) [OF assms] obtain s1 where
    s1: "(case domRef s of
            Some d \<Rightarrow> if \<not> sameMarkup (node s) n then setDomAttrs e n d s else (Inr (), s)
          | None \<Rightarrow> (Inr (), s)) = (Inr (), s1)"
    and res: "snd (update e n validUpdate s) = renderReactComponent (s1\<lparr>node := n\<rparr>)"
    by blast
  have "s1 = s \<or> (\<exists>d. domRef s = Some d \<and> s1 = snd (setDomAttrs e n d s))"
    using s1 by (auto split: option.splits if_splits)
  then show ?thesis
    by (auto simp: res renderReactComponent_fields setDomAttrs_fields setDomAttrs_frame
        setDomAttrs_other)
qed

theorem update_keeps_element_witness:
  "fst (update ex_env ex_para2 default_validUpdate ex_mounted) = Inr True \<and>
   domRef ex_mounted = Some 2 \<and>
   domRef (snd (update ex_env ex_para2 default_validUpdate ex_mounted)) = Some 2 \<and>
   length (heap (snd (update ex_env ex_para2 default_validUpdate ex_mounted))) = 3 \<and>
   map localName (heap (snd (update ex_env ex_para2 default_validUpdate ex_mounted))) =
     ['''', ''div'', ''div'']"
proof -
  have accepted: "fst (update ex_env ex_para2 default_validUpdate ex_mounted) = Inr True"
    by (simp add: ex_mounted_eq ex_defs update_defs)
  from update_keeps_element [OF accepted] accepted show ?thesis
    by (simp add: ex_mounted_eq)
qed

text \<open>
  Claim C2, as the code has it. When \<open>update\<close> returns true and the markup changed, every
  attribute named by a key of the attribute object taken from the new node (the one of its
  \<open>toDOM\<close> array or, absent a spec or an attribute object in it, the node's own
  attribute map) has that key's value, converted to a string, on the backing element; the
  name of the attribute is the key in ASCII lower case, and of two keys with the same
  lower-case form the later one counts. Every other attribute of the element keeps the
  value it had before the call. Attributes that only the previous node had are therefore
  still there.
\<close>

theorem update_attribute_sync:
  assumes "fst (update e n validUpdate s) = Inr True" and "\<not> sameMarkup (node s) n"
    and "domRef s = Some d" and "isElementDOMNode (heap s) d"
  shows "getAttribute (heap (snd (update e n validUpdate s))) d name =
           (case map_of (rev (html_attributes (attr_source e n))) (ascii_lowercase name) of
              Some v \<Rightarrow> Some v
            | None \<Rightarrow> getAttribute (heap s) d name)"
proof -
  from update_accepted [OF assms(1)] assms(2,3) obtain s1 where
    ty: "ntype (node s) = ntype n"
    and s1: "setDomAttrs e n d s = (Inr (), s1)"
    and res: "snd (update e n validUpdate s) = renderReactComponent (s1\<lparr>node := n\<rparr>)"
    by auto
  from assms(4) have "d < length (heap s)"
    by (simp add: isElementDOMNode_def)
  from getAttribute_setDomAttrs [OF s1 ty this] show ?thesis
    by (simp add: res renderReactComponent_fields)
qed

theorem update_attribute_sync_witness:
  "fst (update ex_env ex_para2 default_validUpdate ex_mounted) = Inr True \<and>
   \<not> sameMarkup (node ex_mounted) ex_para2 \<and>
   domRef ex_mounted = Some 2 \<and> isElementDOMNode (heap ex_mounted) 2 \<and>
   getAttribute (heap (snd (update ex_env ex_para2 default_validUpdate ex_mounted))) 2 ''level''
     = Some ''3'' \<and>
   getAttribute (heap (snd (update ex_env ex_para2 default_validUpdate ex_mounted))) 2 ''title''
     = Some ''old'' \<and>
   fst (update ex_env ex_para3 default_validUpdate ex_mounted) = Inr True \<and>
   \<not> sameMarkup (node ex_mounted) ex_para3 \<and>
   getAttribute (heap (snd (update ex_env ex_para3 default_validUpdate ex_mounted))) 2 ''level''
     = Some ''1e+21'' \<and>
   getAttribute (heap (snd (update ex_env ex_para3 default_validUpdate ex_mounted))) 2 ''title''
     = Some ''new''"
proof -
  have accepted: "fst (update ex_env ex_para2 default_validUpdate ex_mounted) = Inr True"
    "fst (update ex_env ex_para3 default_validUpdate ex_mounted) = Inr True"
    by (simp_all add: ex_mounted_eq ex_defs update_defs)
  have "(''title'', JStr ''old'') \<in> set (attrs (node ex_mounted))"
    "(''title'', JStr ''old'') \<notin> set (attrs ex_para2)"
    "(''title'', JStr ''old'') \<notin> set (attrs ex_para3)"
    by (simp_all add: ex_mounted_eq ex_defs)
  then have changed: "\<not> sameMarkup (node ex_mounted) ex_para2"
    "\<not> sameMarkup (node ex_mounted) ex_para3"
    unfolding sameMarkup_def by blast+
  have el: "domRef ex_mounted = Some 2" and live: "isElementDOMNode (heap ex_mounted) 2"
    by (simp_all add: ex_mounted_eq isElementDOMNode_def)
  have src: "html_attributes (attr_source ex_env ex_para2) = [(''level'', ''3'')]"
    "html_attributes (attr_source ex_env ex_para3) = [(''title'', ''new''), (''level'', ''1e+21'')]"
    by (simp_all add: attr_source_def html_attributes_def js_get_def ex_defs name_defs)
  have names: "ascii_lowercase ''level'' = ''level''" "ascii_lowercase ''title'' = ''title''"
    by (simp_all add: name_defs)
  have before: "getAttribute (heap ex_mounted) 2 ''title'' = Some ''old''"
    by (simp add: ex_mounted_eq getAttribute_def names)
  from update_attribute_sync [OF accepted(1) changed(1) el live, of "''level''"]
    update_attribute_sync [OF accepted(1) changed(1) el live, of "''title''"]
    update_attribute_sync [OF accepted(2) changed(2) el live, of "''level''"]
    update_attribute_sync [OF accepted(2) changed(2) el live, of "''title''"]
    accepted changed el live
  show ?thesis
    by (simp add: src names before)
qed

text \<open>
  Claim C2, as the spec has it, fails: after \<open>init\<close> on a paragraph with the attributes
  \<open>title\<close> and \<open>level\<close>, an accepted update to a paragraph that only has \<open>level\<close>
  leaves \<open>title\<close> (and the \<open>class\<close> that \<open>init\<close> added) on the element, so its
  attributes are not exactly those of the new node.
\<close>

theorem update_leaves_stale_attributes:
  "fst (update ex_env ex_para2 default_validUpdate ex_mounted) = Inr True \<and>
   \<not> sameMarkup (node ex_mounted) ex_para2 \<and>
   domRef (snd (update ex_env ex_para2 default_validUpdate ex_mounted)) = Some 2 \<and>
   html_attributes (attr_source ex_env ex_para2) = [(''level'', ''3'')] \<and>
   getAttribute (heap (snd (update ex_env ex_para2 default_validUpdate ex_mounted))) 2 ''title''
     = Some ''old'' \<and>
   \<not> attrs_exactly (heap (snd (update ex_env ex_para2 default_validUpdate ex_mounted))) 2
       (attr_source ex_env ex_para2)"
  by (simp add: ex_mounted_eq ex_defs update_defs attr_source_def attrs_exactly_def
      html_attributes_def)

subsection \<open>Initialisation\<close>

text \<open>
  Claim C3. For a node whose type's \<open>toDOM\<close>, applied to the node, yields a tag-name
  string (a string that is a well-formed name, the only strings that
  \<open>document.createElement\<close> takes), \<open>createDomRef\<close> creates a new DOM element (a
  fresh reference, at the end of the store) whose tag name is that string, in the letter
  case that an HTML document gives to names: its local name is the string in ASCII lower
  case (the string itself when it has no upper-case letter) and its \<open>tagName\<close> is the
  string in ASCII upper case. After \<open>init\<close> this element is the adapter's \<open>domRef\<close>,
  also when a later step of \<open>init\<close> throws.
\<close>

theorem init_creates_tag_element:
  assumes "toDOM (types e (ntype (node s))) = Some f" and "f (node s) = SpecString tag"
    and "is_Name tag"
  shows "createDomRef e s =
           (Inr (length (heap s)), s\<lparr>heap := heap s @ [new_element (ascii_lowercase tag)]\<rparr>) \<and>
         domRef (snd (init e s)) = Some (length (heap s)) \<and>
         length (heap (snd (init e s))) = Suc (length (heap s)) \<and>
         nodeType (heap (snd (init e s)) ! length (heap s)) = ELEMENT_NODE \<and>
         localName (heap (snd (init e s)) ! length (heap s)) = ascii_lowercase tag \<and>
         tagName (heap (snd (init e s)) ! length (heap s)) = ascii_uppercase tag \<and>
         (ascii_lowercase tag = tag \<longrightarrow>
            localName (heap (snd (init e s)) ! length (heap s)) = tag) \<and>
         (ascii_uppercase tag = tag \<longrightarrow>
            tagName (heap (snd (init e s)) ! length (heap s)) = tag)"
proof -
  have c: "createDomRef e s =
      (Inr (length (heap s)), s\<lparr>heap := heap s @ [new_element (ascii_lowercase tag)]\<rparr>)"
    using assms by (simp add: createDomRef_def document_createElement_def createElement_def)
  from init_fresh_element [OF c] c show ?thesis
    by (simp add: tagName_def ascii_uppercase_lowercase)
qed

theorem init_creates_tag_element_witness:
  "toDOM (types ex_env (ntype (node (construct ex_break () False ex_heap [])))) \<noteq> None \<and>
   the (toDOM (types ex_env (ntype (node (construct ex_break () False ex_heap [])))))
     (node (construct ex_break () False ex_heap [])) = SpecString ''br'' \<and>
   is_Name ''br'' \<and>
   fst (init ex_env (construct ex_break () False ex_heap [])) = Inr () \<and>
   domRef (snd (init ex_env (construct ex_break () False ex_heap []))) = Some 2 \<and>
   localName (heap (snd (init ex_env (construct ex_break () False ex_heap []))) ! 2) = ''br'' \<and>
   fst (init ex_env (construct ex_break () True ex_heap [])) = Inl SyntaxError \<and>
   localName (heap (snd (init ex_env (construct ex_break () True ex_heap []))) ! 2) = ''br'' \<and>
   the (toDOM (types ex_env (ntype (node (construct ex_rule () False ex_heap [])))))
     (node (construct ex_rule () False ex_heap [])) = SpecString ''Hr'' \<and>
   is_Name ''Hr'' \<and>
   localName (heap (snd (init ex_env (construct ex_rule () False ex_heap []))) ! 2) = ''hr'' \<and>
   tagName (heap (snd (init ex_env (construct ex_rule () False ex_heap []))) ! 2) = ''HR'' \<and>
   the (toDOM (types ex_env (ntype (node (construct ex_nameless () False ex_heap [])))))
     (node (construct ex_nameless () False ex_heap [])) = SpecString [] \<and>
   \<not> is_Name [] \<and>
   init ex_env (construct ex_nameless () False ex_heap []) =
     (Inl InvalidCharacterError, construct ex_nameless () False ex_heap [])"
proof -
  have spec: "toDOM (types ex_env (ntype (node (construct ex_break () b ex_heap [])))) =
      Some (\<lambda>n. SpecString ''br'')"
    "toDOM (types ex_env (ntype (node (construct ex_rule () b ex_heap [])))) =
      Some (\<lambda>n. SpecString ''Hr'')"
    "toDOM (types ex_env (ntype (node (construct ex_nameless () b ex_heap [])))) =
      Some (\<lambda>n. SpecString [])" for b
    by (simp_all add: ex_defs)
  have names: "is_Name ''br''" "is_Name ''Hr''" "\<not> is_Name []"
    "ascii_lowercase ''br'' = ''br''" "ascii_lowercase ''Hr'' = ''hr''"
    "ascii_uppercase ''Hr'' = ''HR''"
    by (simp_all add: name_defs)
  have len: "length (heap (construct n () b ex_heap [])) = 2" for n b
    by (simp add: ex_defs)
  have ok: "fst (init ex_env (construct ex_break () False ex_heap [])) = Inr ()"
    by (simp add: ex_defs init_defs)
  have thrown: "fst (init ex_env (construct ex_break () True ex_heap [])) = Inl SyntaxError"
    by (simp add: ex_defs init_defs)
  from init_creates_tag_element [OF spec(1) refl names(1), of False]
    init_creates_tag_element [OF spec(1) refl names(1), of True]
    init_creates_tag_element [OF spec(2) refl names(2), of False]
    createDomRef_ill_formed_name(2) [OF spec(3) refl names(3), of False]
    ok thrown
  show ?thesis
    by (simp add: spec len names)
qed

text \<open>
  Claim C4. For a node whose type has no \<open>toDOM\<close>, \<open>createDomRef\<close> creates a new
  element that is a \<open>span\<close> if and only if the node is inline, and a \<open>div\<close>
  otherwise; after \<open>init\<close> this element is the adapter's \<open>domRef\<close>.
\<close>

theorem init_creates_default_element:
  assumes "toDOM (types e (ntype (node s))) = None"
  shows "createDomRef e s =
           (Inr (length (heap s)),
            s\<lparr>heap := heap s @ [new_element (if isInline (node s) then ''span'' else ''div'')]\<rparr>) \<and>
         domRef (snd (init e s)) = Some (length (heap s)) \<and>
         length (heap (snd (init e s))) = Suc (length (heap s)) \<and>
         nodeType (heap (snd (init e s)) ! length (heap s)) = ELEMENT_NODE \<and>
         (localName (heap (snd (init e s)) ! length (heap s)) = ''span'') = isInline (node s) \<and>
         (localName (heap (snd (init e s)) ! length (heap s)) = ''div'') = (\<not> isInline (node s))"
proof -
  let ?tag = "if isInline (node s) then ''span'' else ''div''"
  have c: "createDomRef e s = (Inr (length (heap s)), s\<lparr>heap := heap s @ [new_element ?tag]\<rparr>)"
    using assms
    by (simp add: createDomRef_def document_createElement_def createElement_def is_Name_span_div)
  from init_fresh_element [OF c] show ?thesis
    unfolding c by simp
qed

theorem init_creates_default_element_witness:
  "toDOM (types ex_env (ntype (node (construct ex_inline () False ex_heap [])))) = None \<and>
   isInline (node (construct ex_inline () False ex_heap [])) \<and>
   localName (heap (snd (init ex_env (construct ex_inline () False ex_heap []))) ! 2) = ''span'' \<and>
   toDOM (types ex_env (ntype (node (construct ex_para () False ex_heap [])))) = None \<and>
   \<not> isInline (node (construct ex_para () False ex_heap [])) \<and>
   localName (heap (snd (init ex_env (construct ex_para () False ex_heap []))) ! 2) = ''div'' \<and>
   domRef (snd (init ex_env (construct ex_para () False ex_heap []))) = Some 2"
proof -
  have none: "toDOM (types ex_env (ntype (node (construct ex_inline () False ex_heap [])))) = None"
    "toDOM (types ex_env (ntype (node (construct ex_para () False ex_heap [])))) = None"
    by (simp_all add: ex_defs)
  have shape: "isInline (node (construct ex_inline () False ex_heap []))"
    "\<not> isInline (node (construct ex_para () False ex_heap []))"
    "length (heap (construct ex_inline () False ex_heap [])) = 2"
    "length (heap (construct ex_para () False ex_heap [])) = 2"
    by (simp_all add: ex_defs)
  from init_creates_default_element [OF none(1)] init_creates_default_element [OF none(2)]
  show ?thesis
    by (simp add: none shape)
qed

text \<open>
  Claim C6. For a node whose \<open>toDOM\<close> yields a DOM node that is not an element node,
  \<open>createDomRef\<close> throws at once, and so does \<open>init\<close>: the outcome is the error, no
  reference is returned, and the state is the one before the call (no \<open>domRef\<close> is
  assigned and nothing is rendered).
\<close>

theorem init_rejects_non_element:
  assumes "toDOM (types e (ntype (node s))) = Some f" and "f (node s) = SpecNode r"
    and "\<not> isElementDOMNode (heap s) r"
  shows "createDomRef e s = (Inl InvalidElement, s) \<and> init e s = (Inl InvalidElement, s)"
  using assms by (simp add: init_def createDomRef_def)

theorem init_rejects_non_element_witness:
  "toDOM (types ex_env (ntype (node (construct ex_broken () False ex_heap [])))) \<noteq> None \<and>
   the (toDOM (types ex_env (ntype (node (construct ex_broken () False ex_heap [])))))
     (node (construct ex_broken () False ex_heap [])) = SpecNode 0 \<and>
   \<not> isElementDOMNode (heap (construct ex_broken () False ex_heap [])) 0 \<and>
   createDomRef ex_env (construct ex_broken () False ex_heap []) =
     (Inl InvalidElement, construct ex_broken () False ex_heap []) \<and>
   init ex_env (construct ex_broken () False ex_heap []) =
     (Inl InvalidElement, construct ex_broken () False ex_heap [])"
proof -
  have spec: "toDOM (types ex_env (ntype (node (construct ex_broken () False ex_heap [])))) =
      Some (\<lambda>n. SpecNode 0)"
    by (simp add: ex_defs)
  have text_node: "\<not> isElementDOMNode (heap (construct ex_broken () False ex_heap [])) 0"
    by (simp add: ex_defs isElementDOMNode_def)
  from init_rejects_non_element [OF spec refl text_node] text_node
  show ?thesis
    by (simp add: spec)
qed

subsection \<open>The attachment callback\<close>

text \<open>
  Claim C8, as the code has it. For an adapter with a content subtree \<open>c\<close> (the content
  wrapper or, without one, \<open>contentDOM\<close>) and a DOM node \<open>n\<close> handed to
  \<open>handleRef\<close>: when \<open>n\<close> already contains \<open>c\<close>, the callback changes nothing.
  When \<open>n\<close> does not contain \<open>c\<close>, is an element and does not lie inside \<open>c\<close>, the
  callback appends \<open>c\<close> to \<open>n\<close>: \<open>c\<close> leaves its former parent, is the last child
  of \<open>n\<close> and is contained in \<open>n\<close>. When \<open>n\<close> does not contain \<open>c\<close> but lies
  inside \<open>c\<close> (or is not an element), nothing is appended: the callback throws a
  \<open>HierarchyRequestError\<close> and the state is as before. In every case a second call
  with the same node leaves the state as the first call left it.
\<close>

theorem handleRef_appends_unless_inside:
  assumes "(case contentDOMWrapper s of Some w \<Rightarrow> Some w | None \<Rightarrow> contentDOM s) = Some c"
  shows "(contains (heap s) n c \<longrightarrow> handleRef (Some n) s = (Inr (), s)) \<and>
         (\<not> contains (heap s) n c \<and> \<not> contains (heap s) c n \<and>
          isElementDOMNode (heap s) n \<and> c < length (heap s) \<longrightarrow>
            fst (handleRef (Some n) s) = Inr () \<and>
            parent_of (heap (snd (handleRef (Some n) s))) c = Some n \<and>
            childNodes (heap (snd (handleRef (Some n) s)) ! n) = childNodes (heap s ! n) @ [c] \<and>
            (\<forall>q. parent_of (heap s) c = Some q \<and> q < length (heap s) \<longrightarrow>
                 childNodes (heap (snd (handleRef (Some n) s)) ! q) =
                   removeAll c (childNodes (heap s ! q))) \<and>
            contains (heap (snd (handleRef (Some n) s))) n c) \<and>
         (\<not> contains (heap s) n c \<and> n < length (heap s) \<and> c < length (heap s) \<and>
          (contains (heap s) c n \<or> \<not> isElementDOMNode (heap s) n) \<longrightarrow>
            handleRef (Some n) s = (Inl HierarchyRequestError, s)) \<and>
         snd (handleRef (Some n) (snd (handleRef (Some n) s))) = snd (handleRef (Some n) s)"
proof -
  have held: "handleRef (Some n) s = (Inr (), s)" if "contains (heap s) n c"
    using that assms by (simp add: handleRef_def)
  have tried: "handleRef (Some n) s =
      (case appendChild n c (heap s) of
         Inl err \<Rightarrow> (Inl err, s)
       | Inr h \<Rightarrow> (Inr (), s\<lparr>heap := h\<rparr>))" if "\<not> contains (heap s) n c"
    using that assms by (simp add: handleRef_def)
  have appended: "fst (handleRef (Some n) s) = Inr () \<and>
      parent_of (heap (snd (handleRef (Some n) s))) c = Some n \<and>
      childNodes (heap (snd (handleRef (Some n) s)) ! n) = childNodes (heap s ! n) @ [c] \<and>
      (\<forall>q. parent_of (heap s) c = Some q \<and> q < length (heap s) \<longrightarrow>
           childNodes (heap (snd (handleRef (Some n) s)) ! q) =
             removeAll c (childNodes (heap s ! q))) \<and>
      contains (heap (snd (handleRef (Some n) s))) n c"
    if "\<not> contains (heap s) n c" "\<not> contains (heap s) c n"
      "isElementDOMNode (heap s) n" "c < length (heap s)"
  proof -
    from appendChild_success [OF that(3,4,2)] that(1) obtain h' where
      h': "appendChild n c (heap s) = Inr h'" "length h' = length (heap s)"
      "parent_of h' c = Some n" "childNodes (h' ! n) = childNodes (heap s ! n) @ [c]"
      "\<forall>q. parent_of (heap s) c = Some q \<and> q < length (heap s) \<longrightarrow>
           childNodes (h' ! q) = removeAll c (childNodes (heap s ! q))"
      by blast
    from h'(2,3) that(4) have "contains h' n c"
      by (simp add: contains_parent)
    with h' tried [OF that(1)] show ?thesis
      by simp
  qed
  have refused: "handleRef (Some n) s = (Inl HierarchyRequestError, s)"
    if "\<not> contains (heap s) n c" "n < length (heap s)" "c < length (heap s)"
      "contains (heap s) c n \<or> \<not> isElementDOMNode (heap s) n"
    using tried [OF that(1)] appendChild_refused [OF that(2,3,4)] by simp
  have twice: "snd (handleRef (Some n) (snd (handleRef (Some n) s))) = snd (handleRef (Some n) s)"
  proof (cases "contains (heap s) n c")
    case True
    then show ?thesis
      by (simp add: held)
  next
    case False
    show ?thesis
    proof (cases "appendChild n c (heap s)")
      case (Inl err)
      with False show ?thesis
        by (simp add: tried)
    next
      case (Inr h)
      with tried [OF False] have first: "snd (handleRef (Some n) s) = s\<lparr>heap := h\<rparr>"
        by simp
      show ?thesis
      proof (cases "n < length (heap s) \<and> c < length (heap s)")
        case True
        with Inr have "\<not> contains (heap s) c n" "isElementDOMNode (heap s) n"
          by (auto simp: appendChild_def isElementDOMNode_def split: if_splits)
        from appended [OF False this] True have "contains h n c"
          by (simp add: first)
        with assms show ?thesis
          unfolding first by (auto simp: handleRef_def split: option.splits)
      next
        case outside: False
        with Inr have "h = heap s"
          by (auto simp: appendChild_def Let_def split: if_splits)
        with first have "snd (handleRef (Some n) s) = s"
          by simp
        then show ?thesis
          by simp
      qed
    qed
  qed
  from held appended refused twice show ?thesis
    by blast
qed

theorem handleRef_appends_unless_inside_witness:
  "(case contentDOMWrapper ex_rendered of Some w \<Rightarrow> Some w | None \<Rightarrow> contentDOM ex_rendered)
     = Some 1 \<and>
   \<not> contains (heap ex_rendered) 3 1 \<and> \<not> contains (heap ex_rendered) 1 3 \<and>
   isElementDOMNode (heap ex_rendered) 3 \<and> 1 < length (heap ex_rendered) \<and>
   fst (handleRef (Some 3) ex_rendered) = Inr () \<and>
   parent_of (heap ex_rendered) 1 = Some 2 \<and>
   parent_of (heap (snd (handleRef (Some 3) ex_rendered))) 1 = Some 3 \<and>
   childNodes (heap (snd (handleRef (Some 3) ex_rendered)) ! 3) = [1] \<and>
   childNodes (heap (snd (handleRef (Some 3) ex_rendered)) ! 2) = [3] \<and>
   contains (heap (snd (handleRef (Some 3) ex_rendered))) 3 1 \<and>
   snd (handleRef (Some 3) (snd (handleRef (Some 3) ex_rendered))) =
     snd (handleRef (Some 3) ex_rendered) \<and>
   contains (heap ex_rendered) 2 1 \<and>
   handleRef (Some 2) ex_rendered = (Inr (), ex_rendered) \<and>
   (case contentDOMWrapper ex_nested of Some w \<Rightarrow> Some w | None \<Rightarrow> contentDOM ex_nested)
     = Some 1 \<and>
   \<not> contains (heap ex_nested) 3 1 \<and> contains (heap ex_nested) 1 3 \<and>
   handleRef (Some 3) ex_nested = (Inl HierarchyRequestError, ex_nested)"
proof -
  have content: "(case contentDOMWrapper ex_rendered of
      Some w \<Rightarrow> Some w | None \<Rightarrow> contentDOM ex_rendered) = Some 1"
    "(case contentDOMWrapper ex_nested of
      Some w \<Rightarrow> Some w | None \<Rightarrow> contentDOM ex_nested) = Some 1"
    by (simp_all add: ex_rendered_eq ex_nested_eq)
  have apart: "\<not> contains (heap ex_rendered) 3 1" "\<not> contains (heap ex_rendered) 1 3"
    and inside: "contains (heap ex_rendered) 2 1"
    and nested: "\<not> contains (heap ex_nested) 3 1" "contains (heap ex_nested) 1 3"
    by (simp_all add: ex_rendered_eq ex_nested_eq contains_def parent_of_def)
  have live: "isElementDOMNode (heap ex_rendered) 3" "1 < length (heap ex_rendered)"
    "3 < length (heap ex_nested)" "1 < length (heap ex_nested)"
    and before: "childNodes (heap ex_rendered ! 3) = []" "childNodes (heap ex_rendered ! 2) = [1, 3]"
      "parent_of (heap ex_rendered) 1 = Some 2" "2 < length (heap ex_rendered)"
    by (simp_all add: ex_rendered_eq ex_nested_eq isElementDOMNode_def parent_of_def)
  from handleRef_appends_unless_inside [OF content(1), of 3] apart live(1,2)
  have appended: "fst (handleRef (Some 3) ex_rendered) = Inr () \<and>
      parent_of (heap (snd (handleRef (Some 3) ex_rendered))) 1 = Some 3 \<and>
      childNodes (heap (snd (handleRef (Some 3) ex_rendered)) ! 3) =
        childNodes (heap ex_rendered ! 3) @ [1] \<and>
      (\<forall>q. parent_of (heap ex_rendered) 1 = Some q \<and> q < length (heap ex_rendered) \<longrightarrow>
           childNodes (heap (snd (handleRef (Some 3) ex_rendered)) ! q) =
             removeAll 1 (childNodes (heap ex_rendered ! q))) \<and>
      contains (heap (snd (handleRef (Some 3) ex_rendered))) 3 1"
    and twice: "snd (handleRef (Some 3) (snd (handleRef (Some 3) ex_rendered))) =
      snd (handleRef (Some 3) ex_rendered)"
    by blast+
  from appended before(3,4)
  have left: "childNodes (heap (snd (handleRef (Some 3) ex_rendered)) ! 2) =
      removeAll 1 (childNodes (heap ex_rendered ! 2))"
    by blast
  from handleRef_appends_unless_inside [OF content(1), of 2] inside
  have held: "handleRef (Some 2) ex_rendered = (Inr (), ex_rendered)"
    by blast
  from handleRef_appends_unless_inside [OF content(2), of 3] nested live(3,4)
  have refused: "handleRef (Some 3) ex_nested = (Inl HierarchyRequestError, ex_nested)"
    by blast
  from content apart inside nested live before appended left twice held refused show ?thesis
    by simp
qed

text \<open>
  Claim C8, as the spec has it, fails: when the node handed to \<open>handleRef\<close> lies inside
  the content subtree, the node does not contain the subtree, yet the subtree is not
  appended to it; the callback throws and the content wrapper is still the child of the
  backing element.
\<close>

theorem handleRef_throws_inside_content:
  "(case contentDOMWrapper ex_nested of Some w \<Rightarrow> Some w | None \<Rightarrow> contentDOM ex_nested)
     = Some 1 \<and>
   isElementDOMNode (heap ex_nested) 3 \<and>
   \<not> contains (heap ex_nested) 3 1 \<and>
   handleRef (Some 3) ex_nested = (Inl HierarchyRequestError, ex_nested) \<and>
   parent_of (heap (snd (handleRef (Some 3) ex_nested))) 1 = Some 2 \<and>
   childNodes (heap (snd (handleRef (Some 3) ex_nested)) ! 3) = []"
  by (simp add: ex_nested_eq handleRef_def appendChild_def contains_def parent_of_def
      isElementDOMNode_def)

subsection \<open>Destruction\<close>

text \<open>
  Claim C5. \<open>destroy\<close> is idempotent: a second call after a first one changes nothing
  (and, like the first, cannot throw: \<open>destroy\<close> has no exceptional outcome), and a call
  on an adapter whose DOM element was never created changes nothing either.
\<close>

theorem destroy_idempotent:
  "destroy (destroy s) = destroy s \<and> (domRef s = None \<longrightarrow> destroy s = s)"
  by (auto simp: destroy_def split: option.splits)

theorem destroy_idempotent_witness:
  "destroy (destroy ex_mounted_content) = destroy ex_mounted_content \<and>
   portal (destroy (destroy ex_mounted_content)) = [PortalRender 2, PortalRemove 2] \<and>
   domRef (construct ex_para () False ex_heap []) = None \<and>
   destroy (construct ex_para () False ex_heap []) = construct ex_para () False ex_heap []"
  using destroy_idempotent [where s = ex_mounted_content]
    destroy_idempotent [where s = "construct ex_para () False ex_heap []"]
  by (simp add: ex_mounted_content_eq destroy_def construct_def)

text \<open>
  What \<open>destroy\<close> does to an adapter that has a DOM element.
\<close>

lemma destroy_mounted:
  "domRef s = Some d \<Longrightarrow>
     destroy s = s\<lparr>portal := portal s @ [PortalRemove d], domRef := None, contentDOM := None\<rparr>"
  by (simp add: destroy_def)

text \<open>
  Claim C7 says that a first \<open>destroy\<close> of an initialised adapter tells the portal
  container to remove the component from the backing element and then clears every DOM
  reference of the adapter: \<open>domRef\<close>, \<open>contentDOM\<close> and the content wrapper. The
  code does the first and clears \<open>domRef\<close> and \<open>contentDOM\<close>, but it never assigns
  \<open>contentDOMWrapper\<close>: on the adapter of a subclass whose \<open>getContentDOM\<close> hands
  out a wrapper, the wrapper reference that \<open>init\<close> stored is still there after
  \<open>destroy\<close>.
\<close>

theorem destroy_keeps_content_wrapper:
  "fst (init ex_env_content (construct ex_para () False ex_heap [])) = Inr () \<and>
   domRef ex_mounted_content = Some 2 \<and>
   contentDOM ex_mounted_content = Some 1 \<and>
   contentDOMWrapper ex_mounted_content = Some 1 \<and>
   portal (destroy ex_mounted_content) = portal ex_mounted_content @ [PortalRemove 2] \<and>
   domRef (destroy ex_mounted_content) = None \<and>
   contentDOM (destroy ex_mounted_content) = None \<and>
   contentDOMWrapper (destroy ex_mounted_content) = Some 1"
proof -
  have "fst (init ex_env_content (construct ex_para () False ex_heap [])) = Inr ()"
    by (simp add: ex_defs init_defs)
  moreover have "domRef ex_mounted_content = Some 2"
    by (simp add: ex_mounted_content_eq)
  ultimately show ?thesis
    by (simp add: destroy_mounted) (simp add: ex_mounted_content_eq)
qed

end
